theory Spec2Isabelle
  imports Complex_Main "HOL-Library.Sublist"
begin

section \<open>Python values used by the matching services\<close>

text \<open>
  The matching services of \<^verbatim>\<open>backend/app/services\<close> work on dictionaries read from the
  intents table, on strings and on floats. Floats are idealised as real numbers. Strings
  are lists of 8-bit characters, read as the code points U+0000 to U+00FF: the pound sign
  is \<open>CHR 0xA3\<close>; the rupee and euro signs lie outside this alphabet.
\<close>

datatype error = KeyError | AttributeError | TypeError | ValueError | ClientError | StoreError

text \<open>
  An entry of a dictionary: the key is missing, the key holds \<^verbatim>\<open>None\<close>, or it holds a value.
\<close>

datatype 'a field = Absent | Null | Val 'a

text \<open>\<^verbatim>\<open>d.get(k)\<close>: \<^verbatim>\<open>None\<close> for a missing key and for a stored \<^verbatim>\<open>None\<close>.\<close>

fun get :: "'a field \<Rightarrow> 'a option" where
  "get Absent = None"
| "get Null = None"
| "get (Val v) = Some v"

text \<open>\<^verbatim>\<open>d.get(k, default)\<close>: the default only replaces a missing key.\<close>

fun get_default :: "'a field \<Rightarrow> 'a \<Rightarrow> 'a option" where
  "get_default Absent d = Some d"
| "get_default Null d = None"
| "get_default (Val v) d = Some v"

text \<open>\<^verbatim>\<open>d[k]\<close>: raises \<^verbatim>\<open>KeyError\<close> on a missing key.\<close>

fun index :: "'a field \<Rightarrow> error + 'a option" where
  "index Absent = Inl KeyError"
| "index Null = Inr None"
| "index (Val v) = Inr (Some v)"

text \<open>Truthiness of an optional string or list: \<^verbatim>\<open>None\<close> and the empty sequence are false.\<close>

fun truthy :: "'a list option \<Rightarrow> bool" where
  "truthy None = False"
| "truthy (Some xs) = (xs \<noteq> [])"

text \<open>\<^verbatim>\<open>a or b\<close> on optional strings.\<close>

definition py_or :: "'a list option \<Rightarrow> 'a list option \<Rightarrow> 'a list option" where
  "py_or a b = (if truthy a then a else b)"

subsection \<open>Strings\<close>

definition upper_chars :: string where
  "upper_chars = ''ABCDEFGHIJKLMNOPQRSTUVWXYZ'' @
     [CHR 0xC0, CHR 0xC1, CHR 0xC2, CHR 0xC3, CHR 0xC4, CHR 0xC5, CHR 0xC6, CHR 0xC7,
      CHR 0xC8, CHR 0xC9, CHR 0xCA, CHR 0xCB, CHR 0xCC, CHR 0xCD, CHR 0xCE, CHR 0xCF,
      CHR 0xD0, CHR 0xD1, CHR 0xD2, CHR 0xD3, CHR 0xD4, CHR 0xD5, CHR 0xD6,
      CHR 0xD8, CHR 0xD9, CHR 0xDA, CHR 0xDB, CHR 0xDC, CHR 0xDD, CHR 0xDE]"

definition lower_chars :: string where
  "lower_chars = ''abcdefghijklmnopqrstuvwxyz'' @
     [CHR 0xE0, CHR 0xE1, CHR 0xE2, CHR 0xE3, CHR 0xE4, CHR 0xE5, CHR 0xE6, CHR 0xE7,
      CHR 0xE8, CHR 0xE9, CHR 0xEA, CHR 0xEB, CHR 0xEC, CHR 0xED, CHR 0xEE, CHR 0xEF,
      CHR 0xF0, CHR 0xF1, CHR 0xF2, CHR 0xF3, CHR 0xF4, CHR 0xF5, CHR 0xF6,
      CHR 0xF8, CHR 0xF9, CHR 0xFA, CHR 0xFB, CHR 0xFC, CHR 0xFD, CHR 0xFE]"

definition lower_char :: "char \<Rightarrow> char" where
  "lower_char c = (case map_of (zip upper_chars lower_chars) c of Some d \<Rightarrow> d | None \<Rightarrow> c)"

text \<open>\<^verbatim>\<open>s.lower()\<close>\<close>

definition lower :: "string \<Rightarrow> string" where
  "lower s = map lower_char s"

text \<open>\<^verbatim>\<open>sub in s\<close> for strings.\<close>

fun py_in :: "string \<Rightarrow> string \<Rightarrow> bool" where
  "py_in sub [] = (sub = [])"
| "py_in sub (c # cs) = (prefix sub (c # cs) \<or> py_in sub cs)"

definition is_digit :: "char \<Rightarrow> bool" where
  "is_digit c = (c \<in> set ''0123456789'')"

definition digit_val :: "char \<Rightarrow> nat" where
  "digit_val c = (case map_of (zip ''0123456789'' [0, 1, 2, 3, 4, 5, 6, 7, 8, 9]) c of
                    Some n \<Rightarrow> n | None \<Rightarrow> 0)"

definition nat_of_digits :: "string \<Rightarrow> nat" where
  "nat_of_digits ds = foldl (\<lambda>a c. 10 * a + digit_val c) 0 ds"

text \<open>
  \<^verbatim>\<open>float(tok)\<close> for a token of the shape \<^verbatim>\<open>\d+\.?\d*\<close>: the integer part, and the
  fraction digits after the point.
\<close>

definition py_float :: "string \<Rightarrow> real" where
  "py_float tok =
     (let ip = takeWhile is_digit tok;
          fp = drop (length ip + 1) tok
      in real (nat_of_digits ip) + real (nat_of_digits fp) / 10 ^ length fp)"

section \<open>Price parser (advanced\_matching\_service.py, \_extract\_price\_value)\<close>

text \<open>
  A literal of the pattern matches at the head of the text, ignoring case
  (\<^verbatim>\<open>re.IGNORECASE\<close>); the literal is written in lower case.
\<close>

fun ci_prefix :: "string \<Rightarrow> string \<Rightarrow> bool" where
  "ci_prefix [] s = True"
| "ci_prefix (p # ps) [] = False"
| "ci_prefix (p # ps) (c # cs) = (lower_char c = p \<and> ci_prefix ps cs)"

definition currency_chars :: string where
  "currency_chars = [CHR ''$'', CHR 0xA3, CHR '','']"

text \<open>
  \<^verbatim>\<open>re.sub(r'[...$...,]|lakh|lac|k|thousand', '', price_str, flags=re.IGNORECASE)\<close>:
  scanning from the left, the first alternative that matches at a position is removed.
\<close>

fun strip_units :: "string \<Rightarrow> string" where
  "strip_units [] = []"
| "strip_units (c # cs) =
     (if c \<in> set currency_chars then strip_units cs
      else if ci_prefix ''lakh'' (c # cs) then strip_units (drop 3 cs)
      else if ci_prefix ''lac'' (c # cs) then strip_units (drop 2 cs)
      else if ci_prefix ''k'' (c # cs) then strip_units cs
      else if ci_prefix ''thousand'' (c # cs) then strip_units (drop 7 cs)
      else c # strip_units cs)"

text \<open>\<^verbatim>\<open>re.findall(r'\d+\.?\d*', price_str)\<close>, first element if any.\<close>

fun first_number :: "string \<Rightarrow> string option" where
  "first_number [] = None"
| "first_number (c # cs) =
     (if is_digit c then
        (let ip = takeWhile is_digit (c # cs);
             rest = dropWhile is_digit (c # cs)
         in case rest of
              [] \<Rightarrow> Some ip
            | d # rest' \<Rightarrow>
                if d = CHR ''.'' then Some (ip @ [d] @ takeWhile is_digit rest') else Some ip)
      else first_number cs)"

definition extract_price_value :: "string \<Rightarrow> real option" where
  "extract_price_value price_str0 =
     (let price_str = strip_units price_str0 in
      case first_number price_str of
        None \<Rightarrow> None
      | Some tok \<Rightarrow>
          (let v = py_float tok in
           if py_in ''lakh'' (lower price_str) \<or> py_in ''lac'' (lower price_str)
           then Some (v * 100000)
           else if py_in ''k'' (lower price_str) \<or> py_in ''thousand'' (lower price_str)
           then Some (v * 1000)
           else Some v))"

subsection \<open>Whitespace, splitting and integer conversion\<close>

text \<open>Python's whitespace among the code points below 256.\<close>

definition is_space :: "char \<Rightarrow> bool" where
  "is_space c = (c \<in> set [CHR 0x09, CHR 0x0A, CHR 0x0B, CHR 0x0C, CHR 0x0D, CHR 0x1C,
                           CHR 0x1D, CHR 0x1E, CHR 0x1F, CHR 0x20, CHR 0x85, CHR 0xA0])"

text \<open>\<^verbatim>\<open>s.strip()\<close>\<close>

definition strip :: "string \<Rightarrow> string" where
  "strip s = rev (dropWhile is_space (rev (dropWhile is_space s)))"

text \<open>\<^verbatim>\<open>s.split(sep)\<close> for a separator of one character.\<close>

fun split_on :: "char \<Rightarrow> string \<Rightarrow> string list" where
  "split_on sep [] = [[]]"
| "split_on sep (c # cs) =
     (if c = sep then [] # split_on sep cs
      else (case split_on sep cs of
              [] \<Rightarrow> [[c]]
            | p # ps \<Rightarrow> (c # p) # ps))"

text \<open>
  The digits of an integer literal given to \<^verbatim>\<open>int(s)\<close>: decimal digits, with single
  underscores allowed between them.
\<close>

fun digits_ok :: "string \<Rightarrow> bool" where
  "digits_ok [] = False"
| "digits_ok [c] = is_digit c"
| "digits_ok (c # d # cs) =
     (is_digit c \<and> (if d = CHR ''_'' then digits_ok cs else digits_ok (d # cs)))"

definition int_of_digits :: "string \<Rightarrow> int option" where
  "int_of_digits ds =
     (if digits_ok ds then Some (int (nat_of_digits (filter (\<lambda>c. c \<noteq> CHR ''_'') ds)))
      else None)"

text \<open>\<^verbatim>\<open>int(s)\<close> on a string; \<open>None\<close> stands for \<^verbatim>\<open>ValueError\<close>.\<close>

definition py_int :: "string \<Rightarrow> int option" where
  "py_int s =
     (case strip s of
        [] \<Rightarrow> None
      | c # cs \<Rightarrow>
          if c = CHR ''-'' then map_option uminus (int_of_digits cs)
          else if c = CHR ''+'' then int_of_digits cs
          else int_of_digits (c # cs))"

section \<open>Structured parameters (advanced\_matching\_service.py)\<close>

text \<open>
  The dictionary built by \<^verbatim>\<open>_extract_parameters\<close>. Every entry is read with \<^verbatim>\<open>.get\<close>, so
  a missing key and \<^verbatim>\<open>None\<close> are one case; the query interpreter stores strings.
\<close>

record params =
  p_intent :: "string option"
  p_category :: "string option"
  p_sub_category :: "string option"
  p_brand :: "string option"
  p_model :: "string option"
  p_year :: "string option"
  p_fuel_type :: "string option"
  p_price :: "string option"
  p_budget :: "string option"
  p_location :: "string option"

datatype param_key = Category | SubCategory | Brand | Model | Year | FuelType

fun param_get :: "params \<Rightarrow> param_key \<Rightarrow> string option" where
  "param_get ps Category = p_category ps"
| "param_get ps SubCategory = p_sub_category ps"
| "param_get ps Brand = p_brand ps"
| "param_get ps Model = p_model ps"
| "param_get ps Year = p_year ps"
| "param_get ps FuelType = p_fuel_type ps"

definition param_weights :: "(param_key \<times> real) list" where
  "param_weights =
     [(Category, 0.3), (SubCategory, 0.2), (Brand, 0.2), (Model, 0.15), (Year, 0.1),
      (FuelType, 0.05)]"

text \<open>
  What one attribute pair present on both sides earns, as a share of its weight: exact
  match, year within one, containment either way, or nothing.
\<close>

definition awarded :: "param_key \<Rightarrow> string \<Rightarrow> string \<Rightarrow> real" where
  "awarded param user_val match_val =
     (if lower user_val = lower match_val then 1
      else if param = Year then
        (case (py_int user_val, py_int match_val) of
           (Some a, Some b) \<Rightarrow> if \<bar>a - b\<bar> \<le> 1 then 0.8 else 0
         | _ \<Rightarrow> 0)
      else if py_in (lower user_val) (lower match_val) \<or> py_in (lower match_val) (lower user_val)
      then 0.6
      else 0)"

text \<open>One round of the loop over the weight table, on \<open>(overlap_score, total_weight)\<close>.\<close>

definition overlap_step ::
  "params \<Rightarrow> params \<Rightarrow> real \<times> real \<Rightarrow> param_key \<times> real \<Rightarrow> real \<times> real" where
  "overlap_step user_params match_params acc kw =
     (case (param_get user_params (fst kw), param_get match_params (fst kw)) of
        (Some user_val, Some match_val) \<Rightarrow>
          if user_val \<noteq> [] \<and> match_val \<noteq> [] then
            (fst acc + snd kw * awarded (fst kw) user_val match_val, snd acc + snd kw)
          else acc
      | _ \<Rightarrow> acc)"

definition calculate_parameter_overlap :: "params \<Rightarrow> params \<Rightarrow> real" where
  "calculate_parameter_overlap user_params match_params =
     (let acc = foldl (overlap_step user_params match_params) (0, 0) param_weights
      in if snd acc > 0 then fst acc / snd acc else 0.5)"

section \<open>Price tolerance (advanced\_matching\_service.py)\<close>

definition calculate_price_tolerance :: "params \<Rightarrow> params \<Rightarrow> real" where
  "calculate_price_tolerance user_params match_params =
     (case (py_or (p_price user_params) (p_budget user_params),
            py_or (p_price match_params) (p_budget match_params)) of
        (Some user_price, Some match_price) \<Rightarrow>
          if user_price = [] \<or> match_price = [] then 0.5
          else
            (case (extract_price_value user_price, extract_price_value match_price) of
               (Some user_price_val, Some match_price_val) \<Rightarrow>
                 if user_price_val \<noteq> 0 \<and> match_price_val \<noteq> 0 then
                   (let price_diff = \<bar>user_price_val - match_price_val\<bar>;
                        tolerance = user_price_val * 0.1
                    in if price_diff \<le> tolerance then 1 - price_diff / tolerance
                       else max 0 (1 - price_diff / (user_price_val * 0.5)))
                 else 0.5
             | _ \<Rightarrow> 0.5)
      | _ \<Rightarrow> 0.5)"

section \<open>Embedding similarity (embedding\_service.py)\<close>

definition dot :: "real list \<Rightarrow> real list \<Rightarrow> real" where
  "dot xs ys = sum_list (map2 (*) xs ys)"

definition vec_norm :: "real list \<Rightarrow> real" where
  "vec_norm xs = sqrt (sum_list (map (\<lambda>a. a * a) xs))"

definition cosine :: "real list \<Rightarrow> real list \<Rightarrow> real" where
  "cosine e1 e2 =
     (if vec_norm e1 = 0 \<or> vec_norm e2 = 0 then 0
      else dot e1 e2 / (vec_norm e1 * vec_norm e2))"

text \<open>
  \<^verbatim>\<open>compute_similarity\<close>. With numpy importable the \<^verbatim>\<open>try\<close> body runs: \<^verbatim>\<open>np.dot\<close> of two
  one-dimensional arrays of different lengths raises \<^verbatim>\<open>ValueError\<close>, which the handler
  for \<^verbatim>\<open>ImportError\<close> does not catch. Without numpy the handler runs and checks the
  lengths itself.
\<close>

definition compute_similarity :: "bool \<Rightarrow> real list \<Rightarrow> real list \<Rightarrow> error + real" where
  "compute_similarity numpy embedding1 embedding2 =
     (if numpy then
        (if length embedding1 \<noteq> length embedding2 then Inl ValueError
         else Inr (cosine embedding1 embedding2))
      else
        (if length embedding1 \<noteq> length embedding2 then Inr 0
         else Inr (cosine embedding1 embedding2)))"

section \<open>Intent records\<close>

text \<open>
  The \<^verbatim>\<open>parsed_data\<close> dictionary of an intent. The entries read with \<^verbatim>\<open>.get\<close> and used for
  their truth value only are options; the entries whose presence or length is read are
  fields. The empty dictionary is the record with nothing present.
\<close>

record parsed =
  pd_intent :: "string option"
  pd_category :: "string option"
  pd_sub_category :: "string option"
  pd_brand :: "string option"
  pd_model :: "string option"
  pd_year :: "string option"
  pd_fuel_type :: "string option"
  pd_price :: "string option"
  pd_budget :: "string option"
  pd_location :: "string option"
  pd_embedding :: "real list option"
  pd_keywords :: "string list field"
  pd_locations :: "string list field"
  pd_prices :: "string list field"
  pd_user_features :: "real list field"
  pd_business_features :: "real list field"

text \<open>
  A row of the intents table as the services receive it, for the query intent and for
  every candidate. \<open>users\<close> is the joined owner row, given by its name column.
\<close>

record intent =
  intent_id :: "string field"
  user_id :: "string field"
  post_type :: "string field"
  category :: "string field"
  raw_query :: "string field"
  location_name :: "string field"
  location :: "string field"
  embedding :: "real list field"
  parsed_data :: "parsed field"
  users :: "string option field"
  created_at :: "string field"

definition empty_parsed :: parsed where
  "empty_parsed = \<lparr>pd_intent = None, pd_category = None, pd_sub_category = None,
     pd_brand = None, pd_model = None, pd_year = None, pd_fuel_type = None, pd_price = None,
     pd_budget = None, pd_location = None, pd_embedding = None, pd_keywords = Absent,
     pd_locations = Absent, pd_prices = Absent, pd_user_features = Absent,
     pd_business_features = Absent\<rparr>"

section \<open>Feature vector (ml\_matching\_service.py, \_extract\_feature\_vector)\<close>

text \<open>\<^verbatim>\<open>text.split()\<close>: the maximal runs of characters that are not whitespace.\<close>

fun split_ws_acc :: "string \<Rightarrow> string \<Rightarrow> string list" where
  "split_ws_acc w [] = (if w = [] then [] else [rev w])"
| "split_ws_acc w (c # cs) =
     (if is_space c then (if w = [] then split_ws_acc [] cs else rev w # split_ws_acc [] cs)
      else split_ws_acc (c # w) cs)"

definition split_ws :: "string \<Rightarrow> string list" where
  "split_ws s = split_ws_acc [] s"

text \<open>\<^verbatim>\<open>len(parsed.get(key, []))\<close>: \<^verbatim>\<open>len(None)\<close> raises \<^verbatim>\<open>TypeError\<close>.\<close>

fun len_or_empty :: "'a list field \<Rightarrow> error + real" where
  "len_or_empty Absent = Inr 0"
| "len_or_empty Null = Inl TypeError"
| "len_or_empty (Val xs) = Inr (real (length xs))"

text \<open>
  The profile slots: the first five entries of \<^verbatim>\<open>user_features\<close> if that key is present,
  else of \<^verbatim>\<open>business_features\<close> if that key is present, else five times 0.5. Slicing
  \<^verbatim>\<open>None\<close> raises \<^verbatim>\<open>TypeError\<close>.
\<close>

definition profile_features :: "parsed \<Rightarrow> error + real list" where
  "profile_features p =
     (case pd_user_features p of
        Val fs \<Rightarrow> Inr (take 5 fs)
      | Null \<Rightarrow> Inl TypeError
      | Absent \<Rightarrow>
          (case pd_business_features p of
             Val fs \<Rightarrow> Inr (take 5 fs)
           | Null \<Rightarrow> Inl TypeError
           | Absent \<Rightarrow> Inr (replicate 5 0.5)))"

definition categories :: "string list" where
  "categories = [''product'', ''service'', ''social'', ''travel'', ''general'']"

text \<open>Word count, character count, question marks, exclamation marks.\<close>

definition text_features :: "string \<Rightarrow> real list" where
  "text_features s =
     [real (length (split_ws s)), real (length s), real (count_list s CHR ''?''),
      real (count_list s CHR ''!'')]"

definition category_encoding :: "string option \<Rightarrow> real list" where
  "category_encoding c = map (\<lambda>cat. if Some cat = c then 1 else 0) categories"

text \<open>
  \<^verbatim>\<open>while len(features) < 20: features.append(0.0)\<close>, then \<^verbatim>\<open>features[:20]\<close>.
\<close>

definition pad20 :: "real list \<Rightarrow> real list" where
  "pad20 features = take 20 (features @ replicate (20 - length features) 0)"

definition extract_feature_vector :: "intent \<Rightarrow> error + real list" where
  "extract_feature_vector data =
     (case get_default (raw_query data) [] of
        None \<Rightarrow> Inl AttributeError
      | Some q \<Rightarrow>
     (case get_default (parsed_data data) empty_parsed of
        None \<Rightarrow> Inl AttributeError
      | Some p \<Rightarrow>
     (case len_or_empty (pd_keywords p) of Inl e \<Rightarrow> Inl e | Inr nk \<Rightarrow>
     (case len_or_empty (pd_locations p) of Inl e \<Rightarrow> Inl e | Inr nl \<Rightarrow>
     (case len_or_empty (pd_prices p) of Inl e \<Rightarrow> Inl e | Inr np \<Rightarrow>
     (case profile_features p of Inl e \<Rightarrow> Inl e | Inr pf \<Rightarrow>
        Inr (pad20 (text_features q @ [nk, nl, np] @ pf
                    @ category_encoding (get_default (category data) ''general'')))))))))"

section \<open>Location scores of the ML strategy (ml\_matching\_service.py)\<close>

definition city_groups :: "(string \<times> string list) list" where
  "city_groups =
     [(''bangalore_metro'', [''bangalore'', ''whitefield'', ''electronic city'', ''koramangala'']),
      (''mumbai_metro'', [''mumbai'', ''pune'', ''thane'', ''navi mumbai'']),
      (''delhi_ncr'', [''delhi'', ''gurgaon'', ''noida'', ''faridabad'']),
      (''hyderabad_metro'', [''hyderabad'', ''secunderabad'', ''cyberabad'']),
      (''chennai_metro'', [''chennai'', ''tambaram'', ''velachery''])]"

text \<open>The first group of the table one of whose cities occurs in the name.\<close>

definition metro_group :: "string \<Rightarrow> string option" where
  "metro_group loc =
     map_option fst (find (\<lambda>g. list_ex (\<lambda>city. py_in city loc) (snd g)) city_groups)"

definition ml_location_score :: "string \<Rightarrow> string \<Rightarrow> real" where
  "ml_location_score user_location match_location =
     (if user_location = match_location then 1.0
      else if metro_group user_location \<noteq> None then
        (if metro_group match_location = metro_group user_location then 0.8 else 0.3)
      else 0.4)"

fun location_scores_loop :: "string \<Rightarrow> intent list \<Rightarrow> error + real list" where
  "location_scores_loop user_location [] = Inr []"
| "location_scores_loop user_location (m # ms) =
     (case get_default (location_name m) [] of
        None \<Rightarrow> Inl AttributeError
      | Some match_name \<Rightarrow>
          (case location_scores_loop user_location ms of
             Inl e \<Rightarrow> Inl e
           | Inr scores \<Rightarrow> Inr (ml_location_score user_location (lower match_name) # scores)))"

definition compute_location_scores :: "intent \<Rightarrow> intent list \<Rightarrow> error + real list" where
  "compute_location_scores intent_data matches =
     (case get_default (location_name intent_data) [] of
        None \<Rightarrow> Inl AttributeError
      | Some user_name \<Rightarrow> location_scores_loop (lower user_name) matches)"

section \<open>Environment of the matching strategies\<close>

text \<open>
  What a strategy asks of the candidate store. The advanced strategy filters on the
  category when it has one and on the inverted intent verb; the basic and the ML
  strategy filter on the opposite post type and the category.
\<close>

datatype query = AdvancedQuery "string option" string | BasicQuery string "string option"

text \<open>An exception is propagated through a sequence of statements.\<close>

definition ebind :: "error + 'a \<Rightarrow> ('a \<Rightarrow> error + 'b) \<Rightarrow> error + 'b" where
  "ebind x f = (case x of Inl e \<Rightarrow> Inl e | Inr v \<Rightarrow> f v)"

section \<open>Advanced strategy (advanced\_matching\_service.py)\<close>

definition intent_inversions :: "(string \<times> string) list" where
  "intent_inversions =
     [(''buy'', ''sell''), (''sell'', ''buy''), (''rent'', ''rent_out''), (''rent_out'', ''rent''),
      (''looking'', ''offering''), (''offering'', ''looking''), (''need'', ''provide''),
      (''provide'', ''need''), (''want'', ''have''), (''have'', ''want'')]"

text \<open>\<^verbatim>\<open>INTENT_INVERSIONS.get(user_intent, user_intent)\<close>\<close>

definition invert_intent :: "string \<Rightarrow> string" where
  "invert_intent s = (case map_of intent_inversions s of Some t \<Rightarrow> t | None \<Rightarrow> s)"

definition intent_keywords :: "(string \<times> string list) list" where
  "intent_keywords =
     [(''buy'', [''buy'', ''buying'', ''purchase'', ''looking for'', ''want to buy'', ''need'']),
      (''sell'', [''sell'', ''selling'', ''sale'', ''for sale'', ''offering'']),
      (''rent'', [''rent'', ''renting'', ''lease'', ''for rent'']),
      (''rent_out'', [''rent out'', ''renting out'', ''available for rent'']),
      (''looking'', [''looking'', ''searching'', ''seeking'', ''find'']),
      (''offering'', [''offering'', ''providing'', ''available''])]"

definition extract_intent_from_query :: "string \<Rightarrow> string" where
  "extract_intent_from_query q =
     (case find (\<lambda>ik. list_ex (\<lambda>keyword. py_in keyword (lower q)) (snd ik)) intent_keywords of
        Some ik \<Rightarrow> fst ik
      | None \<Rightarrow> ''looking'')"

text \<open>
  \<^verbatim>\<open>_extract_parameters\<close>. The intent verb falls back to the raw query, whose \<^verbatim>\<open>.lower()\<close>
  raises when the query is null.
\<close>

definition extract_parameters :: "intent \<Rightarrow> error + params" where
  "extract_parameters intent_data =
     (let p = (case get (parsed_data intent_data) of Some p \<Rightarrow> p | None \<Rightarrow> empty_parsed)
      in ebind
          (if truthy (pd_intent p) then Inr (pd_intent p)
           else (case get_default (raw_query intent_data) [] of
                   None \<Rightarrow> Inl AttributeError
                 | Some q \<Rightarrow> Inr (Some (extract_intent_from_query q))))
          (\<lambda>verb. Inr \<lparr>p_intent = verb,
                p_category = py_or (pd_category p) (get (category intent_data)),
                p_sub_category = pd_sub_category p, p_brand = pd_brand p,
                p_model = pd_model p, p_year = pd_year p, p_fuel_type = pd_fuel_type p,
                p_price = pd_price p, p_budget = pd_budget p,
                p_location = py_or (pd_location p) (get (location_name intent_data))\<rparr>))"

text \<open>\<^verbatim>\<open>_extract_city\<close>: the text after the last comma, or the whole text, stripped.\<close>

definition extract_city :: "string \<Rightarrow> string" where
  "extract_city name =
     (let parts = split_on CHR '','' name
      in if length parts \<ge> 2 then strip (last parts) else strip name)"

text \<open>
  \<^verbatim>\<open>_calculate_location_score\<close>. The great-circle distance of \<^verbatim>\<open>_calculate_distance\<close>,
  which never raises, is the parameter \<open>geo\<close>.
\<close>

definition calculate_location_score ::
  "(string \<Rightarrow> string \<Rightarrow> real) \<Rightarrow> string option \<Rightarrow> string option \<Rightarrow> string option \<Rightarrow>
   string option \<Rightarrow> real" where
  "calculate_location_score geo user_location_name match_location_name user_coords match_coords =
     (case (user_coords, match_coords, truthy user_coords \<and> truthy match_coords) of
        (Some uc, Some mc, True) \<Rightarrow>
          (let d = geo uc mc
           in if d \<le> 10 then 1.0 else if d \<le> 20 then 0.8 else if d \<le> 50 then 0.5 else 0.2)
      | _ \<Rightarrow>
        (case (user_location_name, match_location_name,
               truthy user_location_name \<and> truthy match_location_name) of
           (Some un, Some mn, True) \<Rightarrow>
             if lower un = lower mn then 1.0
             else if py_in (lower un) (lower mn) \<or> py_in (lower mn) (lower un) then 0.8
             else if extract_city un \<noteq> [] \<and> extract_city mn \<noteq> [] \<and>
                     lower (extract_city un) = lower (extract_city mn) then 0.6
             else 0.2
         | _ \<Rightarrow> 0.5))"

record scores =
  semantic_similarity :: real
  location_proximity :: real
  parameter_overlap :: real
  price_tolerance :: real

text \<open>The candidate's embedding: its own column, else the copy kept in \<^verbatim>\<open>parsed_data\<close>.\<close>

definition match_embedding_of :: "real list option \<Rightarrow> intent \<Rightarrow> real list option" where
  "match_embedding_of own m =
     (if \<not> truthy own then
        (case get (parsed_data m) of Some p \<Rightarrow> pd_embedding p | None \<Rightarrow> own)
      else own)"

definition calculate_match_scores ::
  "bool \<Rightarrow> (string \<Rightarrow> string \<Rightarrow> real) \<Rightarrow> intent \<Rightarrow> intent \<Rightarrow> params \<Rightarrow> error + scores" where
  "calculate_match_scores numpy geo user_intent m user_params =
     ebind
       (case (get_default (embedding user_intent) [],
              match_embedding_of (get_default (embedding m) []) m) of
          (Some ue, Some me) \<Rightarrow>
            if ue \<noteq> [] \<and> me \<noteq> [] then compute_similarity numpy ue me else Inr 0
        | _ \<Rightarrow> Inr 0)
       (\<lambda>sem. ebind (extract_parameters m)
       (\<lambda>match_params.
          Inr \<lparr>semantic_similarity = sem,
               location_proximity =
                 calculate_location_score geo (get (location_name user_intent))
                   (get (location_name m)) (get (location user_intent)) (get (location m)),
               parameter_overlap = calculate_parameter_overlap user_params match_params,
               price_tolerance = calculate_price_tolerance user_params match_params\<rparr>))"

definition scoring_weights :: "((scores \<Rightarrow> real) \<times> real) list" where
  "scoring_weights =
     [(semantic_similarity, 0.4), (location_proximity, 0.2), (parameter_overlap, 0.3),
      (price_tolerance, 0.1)]"

definition calculate_composite_score :: "scores \<Rightarrow> real" where
  "calculate_composite_score sc =
     foldl (\<lambda>composite cw. composite + fst cw sc * snd cw) 0 scoring_weights"

text \<open>\<^verbatim>\<open>round(x, n)\<close>: to the nearest multiple of \<open>10\<^sup>-\<^sup>n\<close>, a tie going to the even one.\<close>

definition py_round :: "real \<Rightarrow> nat \<Rightarrow> real" where
  "py_round x n =
     (let y = x * 10 ^ n; f = \<lfloor>y\<rfloor>; d = y - of_int f
      in of_int (if d < 1 / 2 then f else if 1 / 2 < d then f + 1
                 else if even f then f else f + 1) / 10 ^ n)"

record adv_match =
  am_intent_id :: "string option"
  am_user_id :: "string option"
  am_user_name :: "string option"
  am_location_name :: "string option"
  am_raw_query :: "string option"
  am_category :: "string option"
  am_post_type :: "string option"
  am_scores :: scores
  composite_score :: real
  am_created_at :: "string option"
  am_parsed_data :: "parsed option"

text \<open>\<^verbatim>\<open>match['users']['name'] if match.get('users') else 'Unknown'\<close>\<close>

definition user_name_of :: "intent \<Rightarrow> string option" where
  "user_name_of m = (case get (users m) of Some n \<Rightarrow> n | None \<Rightarrow> Some ''Unknown'')"

definition format_match_result :: "intent \<Rightarrow> scores \<Rightarrow> real \<Rightarrow> error + adv_match" where
  "format_match_result m sc composite =
     ebind (index (intent_id m)) (\<lambda>iid.
     ebind (index (raw_query m)) (\<lambda>rq.
     ebind (index (category m)) (\<lambda>cat.
     ebind (index (post_type m)) (\<lambda>pt.
     ebind (index (created_at m)) (\<lambda>ca.
       Inr \<lparr>am_intent_id = iid, am_user_id = get (user_id m), am_user_name = user_name_of m,
            am_location_name = get_default (location_name m) [], am_raw_query = rq,
            am_category = cat, am_post_type = pt,
            am_scores =
              \<lparr>semantic_similarity = py_round (semantic_similarity sc) 3,
               location_proximity = py_round (location_proximity sc) 3,
               parameter_overlap = py_round (parameter_overlap sc) 3,
               price_tolerance = py_round (price_tolerance sc) 3\<rparr>,
            composite_score = py_round composite 3, am_created_at = ca,
            am_parsed_data = get_default (parsed_data m) empty_parsed\<rparr>)))))"

text \<open>
  The body of the loop over the candidates: \<open>None\<close> when the candidate is skipped (same
  owner, or an exception while it is processed) or scores below 0.75.
\<close>

definition advanced_candidate ::
  "bool \<Rightarrow> (string \<Rightarrow> string \<Rightarrow> real) \<Rightarrow> intent \<Rightarrow> params \<Rightarrow> intent \<Rightarrow> adv_match option" where
  "advanced_candidate numpy geo intent_data parsed_params m =
     (if get (user_id m) = get (user_id intent_data) then None
      else (case calculate_match_scores numpy geo intent_data m parsed_params of
              Inl e \<Rightarrow> None
            | Inr sc \<Rightarrow>
                if calculate_composite_score sc \<ge> 0.75 then
                  (case format_match_result m sc (calculate_composite_score sc) of
                     Inl e \<Rightarrow> None
                   | Inr r \<Rightarrow> Some r)
                else None))"

text \<open>
  The environment: whether \<^verbatim>\<open>get_supabase()\<close> yields a client, what the store answers
  to a query (an exception or rows), whether numpy can be imported, the great-circle
  distance, and the scoring of the ML strategy (scikit-learn vectoriser, clock).
\<close>

record ml_match =
  mm_intent_id :: "string option"
  mm_user_name :: "string option"
  mm_location_name :: "string option"
  mm_raw_query :: "string option"
  mm_category :: "string option"
  mm_post_type :: "string option"
  mm_combined_score :: real
  mm_confidence_score :: real
  mm_match_quality :: string
  mm_created_at :: "string option"

record env =
  client_ok :: bool
  execute :: "query \<Rightarrow> error + intent list"
  numpy :: bool
  distance :: "string \<Rightarrow> string \<Rightarrow> real"
  ml_score :: "intent \<Rightarrow> intent list \<Rightarrow> error + ml_match list"

text \<open>\<^verbatim>\<open>xs.sort(key=..., reverse=True)\<close>: stable, largest key first.\<close>

definition sort_desc :: "('a \<Rightarrow> real) \<Rightarrow> 'a list \<Rightarrow> 'a list" where
  "sort_desc key xs = sort_key (\<lambda>x. - key x) xs"

definition advanced_query :: "params \<Rightarrow> query" where
  "advanced_query parsed_params =
     AdvancedQuery (if truthy (p_category parsed_params) then p_category parsed_params else None)
       (invert_intent (case p_intent parsed_params of Some v \<Rightarrow> v | None \<Rightarrow> ''buy''))"

definition find_advanced_matches :: "env \<Rightarrow> intent \<Rightarrow> error + adv_match list" where
  "find_advanced_matches e intent_data =
     (if \<not> client_ok e then Inl ClientError
      else ebind (extract_parameters intent_data) (\<lambda>parsed_params.
        (case execute e (advanced_query parsed_params) of
           Inl err \<Rightarrow> Inr []
         | Inr data \<Rightarrow>
             Inr (take 7 (sort_desc composite_score
                    (List.map_filter
                       (advanced_candidate (numpy e) (distance e) intent_data parsed_params)
                       data))))))"

section \<open>Basic strategy (matching\_service.py)\<close>

record basic_match =
  bm_intent_id :: "string option"
  bm_user_name :: "string option"
  bm_location_name :: "string option"
  bm_raw_query :: "string option"
  bm_category :: "string option"
  bm_post_type :: "string option"
  similarity :: real
  distance_km :: real
  combined_score :: real
  bm_created_at :: "string option"

text \<open>\<^verbatim>\<open>'supply' if intent_data['post_type'] == 'demand' else 'demand'\<close>\<close>

definition opposite_post_type :: "string option \<Rightarrow> string" where
  "opposite_post_type pt = (if pt = Some ''demand'' then ''supply'' else ''demand'')"

text \<open>Location score and distance by comparison of the names; 0.5 without two names.\<close>

definition basic_location :: "string option \<Rightarrow> string option \<Rightarrow> real \<times> real" where
  "basic_location user_location_name match_location_name =
     (case (user_location_name, match_location_name,
            truthy user_location_name \<and> truthy match_location_name) of
        (Some un, Some mn, True) \<Rightarrow>
          if lower un = lower mn then (1.0, 0.0)
          else if py_in (lower un) (lower mn) \<or> py_in (lower mn) (lower un) then (0.7, 5.0)
          else (0.2, 20.0)
      | _ \<Rightarrow> (0.5, 0.0))"

text \<open>Similarity of the embeddings when both sides have one, else the default 0.5.\<close>

definition basic_similarity :: "bool \<Rightarrow> real list option \<Rightarrow> real list option \<Rightarrow> error + real" where
  "basic_similarity np user_embedding match_embedding =
     (case (user_embedding, match_embedding) of
        (Some ue, Some me) \<Rightarrow>
          if ue \<noteq> [] \<and> me \<noteq> [] then compute_similarity np ue me else Inr 0.5
      | _ \<Rightarrow> Inr 0.5)"

definition basic_candidate ::
  "bool \<Rightarrow> real list option \<Rightarrow> string option \<Rightarrow> intent \<Rightarrow> error + basic_match option" where
  "basic_candidate np user_embedding user_location_name m =
     ebind (basic_similarity np user_embedding (match_embedding_of (get (embedding m)) m))
       (\<lambda>sim.
          (let loc = basic_location user_location_name (get (location_name m));
               combined = sim * 0.7 + fst loc * 0.3
           in if combined > 0.3 then
                ebind (index (intent_id m)) (\<lambda>iid.
                ebind (index (raw_query m)) (\<lambda>rq.
                ebind (index (category m)) (\<lambda>cat.
                ebind (index (post_type m)) (\<lambda>pt.
                ebind (index (created_at m)) (\<lambda>ca.
                  Inr (Some \<lparr>bm_intent_id = iid, bm_user_name = user_name_of m,
                         bm_location_name = get_default (location_name m) [],
                         bm_raw_query = rq, bm_category = cat, bm_post_type = pt,
                         similarity = py_round sim 3, distance_km = py_round (snd loc) 2,
                         combined_score = py_round combined 3, bm_created_at = ca\<rparr>))))))
              else Inr None))"

text \<open>An exception while a candidate is processed skips the candidate.\<close>

definition basic_accepted ::
  "bool \<Rightarrow> real list option \<Rightarrow> string option \<Rightarrow> intent \<Rightarrow> basic_match option" where
  "basic_accepted np user_embedding user_location_name m =
     (case basic_candidate np user_embedding user_location_name m of
        Inl e \<Rightarrow> None
      | Inr r \<Rightarrow> r)"

text \<open>The query's embedding: its own column, else the copy kept in \<^verbatim>\<open>parsed_data\<close>.\<close>

definition user_embedding_of :: "intent \<Rightarrow> real list option" where
  "user_embedding_of intent_data =
     (let own = get_default (embedding intent_data) []
      in if \<not> truthy own then
           (case get (parsed_data intent_data) of
              Some p \<Rightarrow> pd_embedding p
            | None \<Rightarrow> own)
         else own)"

text \<open>
  \<^verbatim>\<open>find_matches\<close>. The client and \<^verbatim>\<open>intent_data['post_type']\<close> are read before the \<^verbatim>\<open>try\<close>
  block; everything after is inside it and ends in the empty list on an exception.
\<close>

definition find_matches :: "env \<Rightarrow> intent \<Rightarrow> error + basic_match list" where
  "find_matches e intent_data =
     (if \<not> client_ok e then Inl ClientError
      else ebind (index (post_type intent_data)) (\<lambda>pt.
        (case index (category intent_data) of
           Inl err \<Rightarrow> Inr []
         | Inr cat \<Rightarrow>
             (case execute e (BasicQuery (opposite_post_type pt) cat) of
                Inl err \<Rightarrow> Inr []
              | Inr data \<Rightarrow>
                  Inr (take 10 (sort_desc combined_score
                         (List.map_filter
                            (basic_accepted (numpy e) (user_embedding_of intent_data)
                               (get_default (location_name intent_data) []))
                            data)))))))"

section \<open>ML strategy and the fallback chain\<close>





section \<open>Example records\<close>

text \<open>\<^verbatim>\<open>params = {}\<close>\<close>

definition empty_params :: params where
  "empty_params = \<lparr>p_intent = None, p_category = None, p_sub_category = None, p_brand = None,
     p_model = None, p_year = None, p_fuel_type = None, p_price = None, p_budget = None,
     p_location = None\<rparr>"



text \<open>\<^verbatim>\<open>d.get(key, '')\<close> on an entry that is not null.\<close>

definition name_or_empty :: "string field \<Rightarrow> string" where
  "name_or_empty f = (case f of Val s \<Rightarrow> s | _ \<Rightarrow> [])"

text \<open>The dictionary with no key, and intents built from it.\<close>

definition blank_intent :: intent where
  "blank_intent = \<lparr>intent_id = Absent, user_id = Absent, post_type = Absent, category = Absent,
     raw_query = Absent, location_name = Absent, location = Absent, embedding = Absent,
     parsed_data = Absent, users = Absent, created_at = Absent\<rparr>"

definition located :: "string \<Rightarrow> intent" where
  "located s = blank_intent\<lparr>location_name := Val s\<rparr>"

definition plain_intent :: intent where
  "plain_intent = blank_intent\<lparr>raw_query := Val ''need plumber?'', category := Val ''service''\<rparr>"

definition profiled_intent :: intent where
  "profiled_intent = blank_intent\<lparr>raw_query := Val ''need plumber'', category := Val ''general'',
     parsed_data := Val (empty_parsed\<lparr>pd_user_features := Val [0.9]\<rparr>)\<rparr>"

text \<open>A query for a phone in Pune at 50000, owned by u1, and offers in Pune.\<close>

definition phone_query :: intent where
  "phone_query = blank_intent\<lparr>intent_id := Val ''q'', user_id := Val ''u1'',
     post_type := Val ''demand'', category := Val ''product'', raw_query := Val ''buy phone'',
     location_name := Val ''Pune'', embedding := Val [1],
     parsed_data := Val (empty_parsed\<lparr>pd_price := Some ''50000''\<rparr>),
     created_at := Val ''2025-01-01''\<rparr>"

definition phone_offer :: "string \<Rightarrow> string \<Rightarrow> string \<Rightarrow> intent" where
  "phone_offer iid owner price = blank_intent\<lparr>intent_id := Val iid, user_id := Val owner,
     post_type := Val ''supply'', category := Val ''product'', raw_query := Val ''sell phone'',
     location_name := Val ''Pune'', embedding := Val [1],
     parsed_data := Val (empty_parsed\<lparr>pd_price := Some price\<rparr>),
     created_at := Val ''2025-01-02''\<rparr>"

text \<open>A store that answers every query with the given pool; numpy is installed.\<close>

definition shop_env :: "intent list \<Rightarrow> env" where
  "shop_env pool = \<lparr>client_ok = True, execute = (\<lambda>q. Inr pool), numpy = True,
     distance = (\<lambda>a b. 50), ml_score = (\<lambda>i ms. Inr [])\<rparr>"




definition offer_basic_result :: "string \<Rightarrow> basic_match" where
  "offer_basic_result iid =
     \<lparr>bm_intent_id = Some iid, bm_user_name = Some ''Unknown'',
        bm_location_name = Some ''Pune'', bm_raw_query = Some ''sell phone'',
        bm_category = Some ''product'', bm_post_type = Some ''supply'',
        similarity = 1, distance_km = 0, combined_score = 1,
        bm_created_at = Some ''2025-01-02''\<rparr>"






section \<open>Theorems\<close>

lemmas string_eval =
  lower_def lower_char_def upper_chars_def lower_chars_def is_digit_def digit_val_def
  nat_of_digits_def py_float_def currency_chars_def

text \<open>
  C4. The parser is meant to scale a number written with k or thousand by 1,000 and one
  written with lakh or lac by 100,000. It looks for the unit word in the text from which
  the unit words have just been removed, so on ``50k'' and on ``2 lakh'' no factor is
  applied: the results are 50 and 2.
\<close>

theorem extract_price_value_units_lost:
  "extract_price_value ''50k'' = Some 50 \<and> extract_price_value ''2 lakh'' = Some 2"
  by (simp add: extract_price_value_def string_eval)

subsection \<open>Parameter overlap\<close>

lemma awarded_range: "0 \<le> awarded k u m \<and> awarded k u m \<le> 1"
  by (auto simp: awarded_def split: option.splits)

lemma overlap_step_inv:
  assumes "0 \<le> fst acc" "fst acc \<le> snd acc" "0 \<le> snd kw"
  shows "0 \<le> fst (overlap_step up mp acc kw) \<and>
         fst (overlap_step up mp acc kw) \<le> snd (overlap_step up mp acc kw)"
proof -
  have a: "0 \<le> snd kw * awarded (fst kw) u m" "snd kw * awarded (fst kw) u m \<le> snd kw" for u m
    using awarded_range [of "fst kw" u m] assms(3)
    by (simp_all add: mult_left_le)
  show ?thesis
    using assms a
    by (auto simp: overlap_step_def add_mono split: option.splits)
qed

lemma overlap_fold_inv:
  assumes "\<forall>kw \<in> set ws. 0 \<le> snd kw" "0 \<le> fst acc" "fst acc \<le> snd acc"
  shows "0 \<le> fst (foldl (overlap_step up mp) acc ws) \<and>
         fst (foldl (overlap_step up mp) acc ws) \<le> snd (foldl (overlap_step up mp) acc ws)"
  using assms
proof (induction ws arbitrary: acc)
  case Nil
  then show ?case by simp
next
  case (Cons kw ws)
  have "0 \<le> snd kw" using Cons.prems(1) by simp
  from overlap_step_inv [OF Cons.prems(2) Cons.prems(3) this, of up mp]
  show ?case using Cons.IH [of "overlap_step up mp acc kw"] Cons.prems(1) by simp
qed

lemma param_weights_nonneg: "\<forall>kw \<in> set param_weights. 0 \<le> snd kw"
  by (simp add: param_weights_def)

lemma overlap_step_absent:
  "\<not> (truthy (param_get up (fst kw)) \<and> truthy (param_get mp (fst kw))) \<Longrightarrow>
   overlap_step up mp acc kw = acc"
  by (auto simp: overlap_step_def split: option.splits)

lemma overlap_fold_absent:
  "\<forall>k. \<not> (truthy (param_get up k) \<and> truthy (param_get mp k)) \<Longrightarrow>
   foldl (overlap_step up mp) acc ws = acc"
  by (induction ws arbitrary: acc) (simp_all add: overlap_step_absent)

text \<open>
  C8. With the fixed weight table the parameter overlap score lies between 0 and 1 for
  every pair of parameter sets, and it is exactly 0.5 when no attribute is present (and
  non-empty) on both sides.
\<close>

theorem parameter_overlap_range:
  "0 \<le> calculate_parameter_overlap up mp \<and> calculate_parameter_overlap up mp \<le> 1 \<and>
   ((\<forall>k. \<not> (truthy (param_get up k) \<and> truthy (param_get mp k))) \<longrightarrow>
      calculate_parameter_overlap up mp = 0.5)"
proof -
  let ?acc = "foldl (overlap_step up mp) (0, 0) param_weights"
  have inv: "0 \<le> fst ?acc \<and> fst ?acc \<le> snd ?acc"
    using overlap_fold_inv [OF param_weights_nonneg, of "(0, 0)" up mp] by simp
  have r: "0 \<le> calculate_parameter_overlap up mp \<and> calculate_parameter_overlap up mp \<le> 1"
    using inv by (simp add: calculate_parameter_overlap_def Let_def)
  have n: "(\<forall>k. \<not> (truthy (param_get up k) \<and> truthy (param_get mp k))) \<longrightarrow>
      calculate_parameter_overlap up mp = 0.5"
    by (simp add: calculate_parameter_overlap_def Let_def overlap_fold_absent)
  show ?thesis using r n by blast
qed

text \<open>
  C8, at a query that only names a category and a candidate that only names a brand:
  nothing is comparable and the score is 0.5.
\<close>

theorem parameter_overlap_range_witness:
  "(\<forall>k. \<not> (truthy (param_get (empty_params\<lparr>p_category := Some ''product''\<rparr>) k) \<and>
             truthy (param_get (empty_params\<lparr>p_brand := Some ''apple''\<rparr>) k))) \<and>
   calculate_parameter_overlap (empty_params\<lparr>p_category := Some ''product''\<rparr>)
     (empty_params\<lparr>p_brand := Some ''apple''\<rparr>) = 0.5"
proof -
  have h: "\<forall>k. \<not> (truthy (param_get (empty_params\<lparr>p_category := Some ''product''\<rparr>) k) \<and>
             truthy (param_get (empty_params\<lparr>p_brand := Some ''apple''\<rparr>) k))"
  proof
    fix k
    show "\<not> (truthy (param_get (empty_params\<lparr>p_category := Some ''product''\<rparr>) k) \<and>
             truthy (param_get (empty_params\<lparr>p_brand := Some ''apple''\<rparr>) k))"
      by (cases k) (simp_all add: empty_params_def)
  qed
  show ?thesis
    using h parameter_overlap_range [of "empty_params\<lparr>p_category := Some ''product''\<rparr>"
        "empty_params\<lparr>p_brand := Some ''apple''\<rparr>"]
    by blast
qed

subsection \<open>Price tolerance\<close>









subsection \<open>Embedding similarity\<close>

text \<open>
  C6. On vectors of different lengths the similarity is meant to be 0.0. The branch taken
  when numpy is missing returns it; the branch taken when numpy is installed raises
  \<^verbatim>\<open>ValueError\<close> from \<^verbatim>\<open>np.dot\<close>.
\<close>

theorem compute_similarity_mismatch:
  "compute_similarity True [1, 0] [1] = Inl ValueError \<and>
   compute_similarity False [1, 0] [1] = Inr 0"
  by (simp add: compute_similarity_def)

subsection \<open>Location scores of the ML strategy\<close>

lemma get_default_name:
  "f \<noteq> Null \<Longrightarrow> get_default f [] = Some (name_or_empty f)"
  by (cases f) (simp_all add: name_or_empty_def)

lemma location_scores_loop_error:
  "location_scores_loop ul ms = Inl e \<Longrightarrow> e = AttributeError"
  by (induction ms) (auto split: option.splits sum.splits)

lemma location_scores_loop_fail:
  "m \<in> set ms \<Longrightarrow> location_name m = Null \<Longrightarrow>
   location_scores_loop ul ms = Inl AttributeError"
proof (induction ms)
  case Nil
  then show ?case by simp
next
  case (Cons a ms)
  show ?case
  proof (cases "location_name a = Null")
    case True
    then show ?thesis by simp
  next
    case False
    then have "m \<in> set ms" using Cons.prems by auto
    then have "location_scores_loop ul ms = Inl AttributeError"
      using Cons.IH Cons.prems(2) by simp
    then show ?thesis by (simp split: option.splits)
  qed
qed

lemma location_scores_loop_ok:
  "\<forall>m \<in> set ms. location_name m \<noteq> Null \<Longrightarrow>
   location_scores_loop ul ms =
     Inr (map (\<lambda>m. ml_location_score ul (lower (name_or_empty (location_name m)))) ms)"
  by (induction ms) (simp_all add: get_default_name)

lemma ml_location_score_values:
  "ml_location_score a b \<in> {1, 0.8, 0.3, 0.4}"
  by (simp add: ml_location_score_def)

text \<open>
  C10. The location scores of the ML strategy. A location name that is null makes
  \<^verbatim>\<open>.lower()\<close> raise. Otherwise there is one score per candidate: 1.0 when the lowered
  names are equal (two missing names are both empty, hence equal), else 0.8 when the
  query's name has a metro group and the candidate's name has the same one, else 0.3
  when the query's name has a metro group, else 0.4. No other value occurs: containment
  of one name in the other earns nothing, and 0.6 and 0.5 are never returned.
\<close>

theorem ml_location_scores_four_values:
  "(if location_name i = Null \<or> (\<exists>m \<in> set ms. location_name m = Null)
    then compute_location_scores i ms = Inl AttributeError
    else \<exists>ss. compute_location_scores i ms = Inr ss \<and> length ss = length ms \<and>
      (\<forall>k < length ms.
         ss ! k =
           (let u = lower (name_or_empty (location_name i));
                c = lower (name_or_empty (location_name (ms ! k)))
            in if u = c then 1
               else if metro_group u \<noteq> None then
                 (if metro_group c = metro_group u then 0.8 else 0.3)
               else 0.4) \<and>
         ss ! k \<in> {1, 0.8, 0.3, 0.4} \<and> ss ! k \<noteq> 0.6 \<and> ss ! k \<noteq> 0.5))"
proof (cases "location_name i = Null \<or> (\<exists>m \<in> set ms. location_name m = Null)")
  case True
  then show ?thesis
    by (auto simp: compute_location_scores_def location_scores_loop_fail split: option.splits
        elim: get_default.elims)
next
  case False
  then have i: "location_name i \<noteq> Null" and ms: "\<forall>m \<in> set ms. location_name m \<noteq> Null"
    by auto
  let ?u = "lower (name_or_empty (location_name i))"
  let ?ss = "map (\<lambda>m. ml_location_score ?u (lower (name_or_empty (location_name m)))) ms"
  have r: "compute_location_scores i ms = Inr ?ss"
    using i location_scores_loop_ok [OF ms]
    by (simp add: compute_location_scores_def get_default_name)
  have v: "ml_location_score ?u c \<noteq> 0.6 \<and> ml_location_score ?u c \<noteq> 0.5" for c
    using ml_location_score_values [of ?u c] by auto
  have "length ?ss = length ms \<and>
      (\<forall>k < length ms.
         ?ss ! k =
           (let u = lower (name_or_empty (location_name i));
                c = lower (name_or_empty (location_name (ms ! k)))
            in if u = c then 1
               else if metro_group u \<noteq> None then
                 (if metro_group c = metro_group u then 0.8 else 0.3)
               else 0.4) \<and>
         ?ss ! k \<in> {1, 0.8, 0.3, 0.4} \<and> ?ss ! k \<noteq> 0.6 \<and> ?ss ! k \<noteq> 0.5)"
    using v ml_location_score_values
    by (simp add: Let_def) (simp add: ml_location_score_def)
  with r False show ?thesis by auto
qed

lemma metro_examples:
  "metro_group ''whitefield'' = Some ''bangalore_metro''"
  "metro_group ''koramangala 5th block'' = Some ''bangalore_metro''"
  "metro_group ''pune'' = Some ''mumbai_metro''"
  "metro_group ''indiranagar'' = None"
  "metro_group ''indiranagar east'' = None"
  by (simp_all add: metro_group_def city_groups_def)

text \<open>
  C10, at a query in Whitefield with candidates in Koramangala (same metro group), Pune
  (another group) and Whitefield itself.
\<close>

theorem ml_location_scores_four_values_witness:
  "compute_location_scores (located ''Whitefield'')
     [located ''Koramangala 5th block'', located ''Pune'', located ''WHITEFIELD''] =
   Inr [0.8, 0.3, 1]"
  using ml_location_scores_four_values [of "located ''Whitefield''"
      "[located ''Koramangala 5th block'', located ''Pune'', located ''WHITEFIELD'']"]
  by (simp add: located_def blank_intent_def compute_location_scores_def ml_location_score_def
      metro_examples string_eval)

subsection \<open>Feature vector\<close>

lemma len_or_empty_Inl: "len_or_empty f = Inl e \<Longrightarrow> f = Null"
  by (cases f) simp_all

lemma profile_features_Inl:
  "profile_features p = Inl e \<Longrightarrow>
   pd_user_features p = Null \<or> (pd_user_features p = Absent \<and> pd_business_features p = Null)"
  by (auto simp: profile_features_def split: field.splits)

lemma profile_features_length: "profile_features p = Inr pf \<Longrightarrow> length pf \<le> 5"
  by (auto simp: profile_features_def split: field.splits)

lemma profile_features_default:
  "pd_user_features p = Absent \<Longrightarrow> pd_business_features p = Absent \<Longrightarrow>
   profile_features p = Inr [0.5, 0.5, 0.5, 0.5, 0.5]"
  by (simp add: profile_features_def numeral_eq_Suc)

lemma text_features_length: "length (text_features s) = 4"
  by (simp add: text_features_def)

lemma category_encoding_length: "length (category_encoding c) = 5"
  by (simp add: category_encoding_def categories_def)

lemma pad20_length: "length (pad20 xs) = 20"
  by (simp add: pad20_def)

lemma pad20_front: "k < length xs \<Longrightarrow> k < 20 \<Longrightarrow> pad20 xs ! k = xs ! k"
  by (simp add: pad20_def nth_append)

lemma pad20_back: "length xs \<le> k \<Longrightarrow> k < 20 \<Longrightarrow> pad20 xs ! k = 0"
  by (simp add: pad20_def nth_append)

lemma feature_vector_Inr:
  assumes "extract_feature_vector d = Inr v"
  shows "\<exists>q p nk nl np pf.
     get_default (raw_query d) [] = Some q \<and>
     get_default (parsed_data d) empty_parsed = Some p \<and>
     profile_features p = Inr pf \<and>
     v = pad20 (text_features q @ [nk, nl, np] @ pf
                @ category_encoding (get_default (category d) ''general''))"
  using assms
  by (auto simp: extract_feature_vector_def split: option.splits sum.splits)

lemma feature_vector_length: "extract_feature_vector d = Inr v \<Longrightarrow> length v = 20"
  using feature_vector_Inr [of d v] by (auto simp: pad20_length)

lemma feature_vector_tail:
  assumes a: "extract_feature_vector d = Inr v" and k: "17 \<le> k" "k < 20"
  shows "v ! k = 0"
proof -
  from feature_vector_Inr [OF a] obtain q p nk nl np pf where
    pf: "profile_features p = Inr pf" and
    v: "v = pad20 (text_features q @ [nk, nl, np] @ pf
                @ category_encoding (get_default (category d) ''general''))"
    by blast
  have l: "length pf \<le> 5" by (rule profile_features_length [OF pf])
  show ?thesis
    unfolding v using k l
    by (intro pad20_back) (simp_all add: text_features_length category_encoding_length)
qed

lemma feature_vector_default_slots:
  assumes a: "extract_feature_vector d = Inr v"
    and p: "get_default (parsed_data d) empty_parsed = Some p"
      "pd_user_features p = Absent" "pd_business_features p = Absent"
    and k: "7 \<le> k" "k \<le> 11"
  shows "v ! k = 0.5"
proof -
  from feature_vector_Inr [OF a] p(1) obtain q nk nl np pf where
    pf: "profile_features p = Inr pf" and
    v: "v = pad20 (text_features q @ [nk, nl, np] @ pf
                @ category_encoding (get_default (category d) ''general''))"
    by auto
  have pf5: "pf = [0.5, 0.5, 0.5, 0.5, 0.5]"
    using pf profile_features_default [OF p(2) p(3)] by simp
  let ?xs = "text_features q @ [nk, nl, np] @ pf
                @ category_encoding (get_default (category d) ''general'')"
  have len: "length ?xs = 17"
    by (simp add: pf5 text_features_length category_encoding_length)
  have "v ! k = ?xs ! k" unfolding v using k len by (intro pad20_front) simp_all
  also have "\<dots> = ([nk, nl, np] @ pf
                @ category_encoding (get_default (category d) ''general'')) ! (k - 4)"
    using k by (simp add: nth_append text_features_length)
  also have "\<dots> = 0.5"
  proof -
    have "k - 4 = 3 \<or> k - 4 = 4 \<or> k - 4 = 5 \<or> k - 4 = 6 \<or> k - 4 = 7" using k by arith
    then show ?thesis unfolding pf5 by auto
  qed
  finally show ?thesis .
qed

lemma feature_vector_Inl:
  assumes "extract_feature_vector d = Inl e"
  shows "raw_query d = Null \<or> parsed_data d = Null \<or>
     (\<exists>p. get_default (parsed_data d) empty_parsed = Some p \<and>
        (pd_keywords p = Null \<or> pd_locations p = Null \<or> pd_prices p = Null \<or>
         pd_user_features p = Null \<or>
         (pd_user_features p = Absent \<and> pd_business_features p = Null)))"
proof (cases "raw_query d = Null \<or> parsed_data d = Null")
  case True
  then show ?thesis by blast
next
  case False
  then obtain q p where t: "get_default (raw_query d) [] = Some q"
    and p: "get_default (parsed_data d) empty_parsed = Some p"
    by (cases "raw_query d"; cases "parsed_data d") auto
  show ?thesis
    using assms t p
    by (auto simp: extract_feature_vector_def
        split: sum.splits dest: len_or_empty_Inl profile_features_Inl)
qed

text \<open>
  C9, as the code has it. Unless an entry it reads is null, the extractor returns a
  vector of exactly 20 entries; at most 17 are produced, so nothing is cut off and the
  last three are the padding 0.0. When \<^verbatim>\<open>parsed_data\<close> has neither \<^verbatim>\<open>user_features\<close> nor
  \<^verbatim>\<open>business_features\<close>, the five profile slots (positions 7 to 11) are 0.5 each.
\<close>

theorem feature_vector_shape:
  "(case extract_feature_vector d of
      Inr v \<Rightarrow>
        length v = 20 \<and> v ! 17 = 0 \<and> v ! 18 = 0 \<and> v ! 19 = 0 \<and>
        (\<forall>p. get_default (parsed_data d) empty_parsed = Some p \<and>
              pd_user_features p = Absent \<and> pd_business_features p = Absent \<longrightarrow>
              v ! 7 = 0.5 \<and> v ! 8 = 0.5 \<and> v ! 9 = 0.5 \<and> v ! 10 = 0.5 \<and> v ! 11 = 0.5)
    | Inl e \<Rightarrow>
        raw_query d = Null \<or> parsed_data d = Null \<or>
        (\<exists>p. get_default (parsed_data d) empty_parsed = Some p \<and>
           (pd_keywords p = Null \<or> pd_locations p = Null \<or> pd_prices p = Null \<or>
            pd_user_features p = Null \<or>
            (pd_user_features p = Absent \<and> pd_business_features p = Null))))"
proof (cases "extract_feature_vector d")
  case (Inl e)
  then show ?thesis using feature_vector_Inl [OF Inl] by simp
next
  case (Inr v)
  show ?thesis
    using feature_vector_length [OF Inr] feature_vector_tail [OF Inr]
      feature_vector_default_slots [OF Inr]
    by (simp add: Inr)
qed

lemma split_ws_examples:
  "split_ws ''need plumber?'' = [''need'', ''plumber?'']"
  "split_ws ''need plumber'' = [''need'', ''plumber'']"
  by (simp_all add: split_ws_def is_space_def)

text \<open>
  C9, at an intent with a text and a category and no \<^verbatim>\<open>parsed_data\<close>.
\<close>

theorem feature_vector_shape_witness:
  "extract_feature_vector plain_intent =
     Inr [2, 13, 1, 0, 0, 0, 0, 0.5, 0.5, 0.5, 0.5, 0.5, 0, 1, 0, 0, 0, 0, 0, 0]"
  using feature_vector_shape [of plain_intent]
  by (simp add: extract_feature_vector_def plain_intent_def blank_intent_def empty_parsed_def
      profile_features_def categories_def category_encoding_def text_features_def pad20_def
      split_ws_examples numeral_eq_Suc)

text \<open>
  C9 as stated fails: with one profile feature supplied, the four slots that are absent
  are not encoded as 0.5. The category encoding follows at once and the vector is
  filled up with 0.0; no entry is 0.5.
\<close>

theorem feature_vector_short_profile:
  "extract_feature_vector profiled_intent =
     Inr [2, 12, 0, 0, 0, 0, 0, 0.9, 0, 0, 0, 0, 1, 0, 0, 0, 0, 0, 0, 0] \<and>
   [2, 12, 0, 0, 0, 0, 0, 0.9, 0, 0, 0, 0, 1, 0, 0, 0, 0, 0, 0, 0] ! 8 \<noteq> (0.5 :: real)"
  by (simp add: extract_feature_vector_def profiled_intent_def blank_intent_def empty_parsed_def
      profile_features_def categories_def category_encoding_def text_features_def pad20_def
      split_ws_examples numeral_eq_Suc)

subsection \<open>Advanced and basic strategy\<close>

lemma ebind_simps [simp]:
  "ebind (Inl e) f = Inl e" "ebind (Inr v) f = f v"
  by (simp_all add: ebind_def)

lemma ebind_Inr: "ebind x f = Inr r \<Longrightarrow> \<exists>v. x = Inr v \<and> f v = Inr r"
  by (cases x) simp_all


lemma set_map_filter: "set (List.map_filter f xs) = {y. \<exists>x \<in> set xs. f x = Some y}"
  by (induction xs) (auto simp: List.map_filter_simps split: option.splits)

lemma sort_desc_set: "set (sort_desc key xs) = set xs"
  by (simp add: sort_desc_def)


lemma format_match_result_fields:
  "format_match_result m sc c = Inr r \<Longrightarrow>
   composite_score r = py_round c 3 \<and> am_user_id r = get (user_id m) \<and>
   index (intent_id m) = Inr (am_intent_id r)"
  by (auto simp: format_match_result_def dest!: ebind_Inr)

lemma advanced_candidate_Some:
  assumes "advanced_candidate np geo i pp m = Some r"
  shows "get (user_id m) \<noteq> get (user_id i) \<and>
     (\<exists>sc. calculate_match_scores np geo i m pp = Inr sc \<and>
        0.75 \<le> calculate_composite_score sc \<and>
        format_match_result m sc (calculate_composite_score sc) = Inr r)"
  using assms
  by (auto simp: advanced_candidate_def split: if_splits sum.splits)

lemma find_advanced_matches_Inr:
  assumes "find_advanced_matches e i = Inr rs"
  shows "\<exists>pp. extract_parameters i = Inr pp \<and>
     (rs = [] \<or>
      (\<exists>data. execute e (advanced_query pp) = Inr data \<and>
         rs = take 7 (sort_desc composite_score
                (List.map_filter (advanced_candidate (numpy e) (distance e) i pp) data))))"
  using assms
  by (auto simp: find_advanced_matches_def split: if_splits sum.splits dest!: ebind_Inr)


text \<open>
  The advanced strategy never returns a candidate of the query's owner.
\<close>

lemma advanced_excludes_owner:
  assumes "find_advanced_matches e i = Inr rs" "r \<in> set rs"
  shows "am_user_id r \<noteq> get (user_id i)"
proof -
  from find_advanced_matches_Inr [OF assms(1)] assms(2) obtain pp data where
    rs: "rs = take 7 (sort_desc composite_score
                (List.map_filter (advanced_candidate (numpy e) (distance e) i pp) data))"
    by auto
  from assms(2) have "r \<in> set (List.map_filter (advanced_candidate (numpy e) (distance e) i pp) data)"
    unfolding rs using set_take_subset sort_desc_set by fastforce
  then obtain m where a: "advanced_candidate (numpy e) (distance e) i pp m = Some r"
    by (auto simp: set_map_filter)
  from advanced_candidate_Some [OF a] obtain sc where
    "get (user_id m) \<noteq> get (user_id i)"
    "format_match_result m sc (calculate_composite_score sc) = Inr r"
    by blast
  then show ?thesis using format_match_result_fields by metis
qed

lemma intent_verbs:
  "extract_intent_from_query ''buy phone'' = ''buy''"
  "extract_intent_from_query ''sell phone'' = ''sell''"
  by (simp_all add: extract_intent_from_query_def intent_keywords_def string_eval)


lemma lower_examples:
  "lower ''Pune'' = ''pune''" "lower ''product'' = ''product''"
  by (simp_all add: string_eval)

lemma phone_query_params:
  "extract_parameters phone_query =
     Inr (empty_params\<lparr>p_intent := Some ''buy'', p_category := Some ''product'',
            p_price := Some ''50000'', p_location := Some ''Pune''\<rparr>)"
  by (simp add: extract_parameters_def phone_query_def blank_intent_def empty_parsed_def
      empty_params_def intent_verbs py_or_def)







lemma phone_candidate_own:
  "advanced_candidate np geo phone_query pp (phone_offer iid ''u1'' price) = None"
  by (simp add: advanced_candidate_def phone_offer_def phone_query_def blank_intent_def)




lemma phone_query_embedding: "user_embedding_of phone_query = Some [1]"
  by (simp add: user_embedding_of_def phone_query_def blank_intent_def Let_def)

lemma phone_query_fields:
  "post_type phone_query = Val ''demand''" "category phone_query = Val ''product''"
  "location_name phone_query = Val ''Pune''"
  by (simp_all add: phone_query_def blank_intent_def)

lemma phone_basic_candidate:
  "basic_accepted True (Some [1]) (Some ''Pune'') (phone_offer iid owner price) =
     Some (offer_basic_result iid)"
  by (simp add: basic_accepted_def basic_candidate_def basic_similarity_def
      match_embedding_of_def phone_offer_def blank_intent_def compute_similarity_def cosine_def
      dot_def vec_norm_def basic_location_def lower_examples py_round_def Let_def
      user_name_of_def offer_basic_result_def)

text \<open>
  C1. The advanced strategy skips a candidate of the query's owner; the basic strategy
  has no such test. With the query owner's own offer as the only candidate the basic
  strategy returns it, the advanced strategy returns nothing.
\<close>

theorem basic_returns_own_intent:
  "user_id (phone_offer ''c'' ''u1'' ''50000'') = user_id phone_query \<and>
   find_matches (shop_env [phone_offer ''c'' ''u1'' ''50000'']) phone_query =
     Inr [offer_basic_result ''c''] \<and>
   find_advanced_matches (shop_env [phone_offer ''c'' ''u1'' ''50000'']) phone_query = Inr []"
proof -
  have u: "user_id (phone_offer ''c'' ''u1'' ''50000'') = user_id phone_query"
    by (simp add: phone_offer_def phone_query_def blank_intent_def)
  have b: "find_matches (shop_env [phone_offer ''c'' ''u1'' ''50000'']) phone_query =
     Inr [offer_basic_result ''c'']"
    by (simp add: find_matches_def shop_env_def phone_query_embedding phone_query_fields
        List.map_filter_simps sort_desc_def phone_basic_candidate)
  have a: "find_advanced_matches (shop_env [phone_offer ''c'' ''u1'' ''50000'']) phone_query = Inr []"
    by (simp add: find_advanced_matches_def shop_env_def phone_query_params
        List.map_filter_simps phone_candidate_own sort_desc_def)
  show ?thesis using u a b by simp
qed

subsection \<open>Basic strategy and unrelated locations\<close>
















subsection \<open>Fallback chain\<close>












end
